theory Spec2Isabelle
  imports Main
begin

section \<open>The game state of \<open>main.cpp\<close>\<close>

text \<open>
  The program keeps one \<open>JogoDasCadeiras\<close> object, shared by a coordinator thread and
  \<open>NUM_JOGADORES\<close> player threads. Its methods are embedded as functions that take the
  object and return the updated one. The C++ \<open>int\<close> fields are embedded as \<open>int\<close>; ids
  are only stored and compared, and the one arithmetic statement on a field, the decrement
  in \<open>eliminar_jogador\<close>, has its overflow written out. Where C++ leaves a call undefined
  (\<open>pop_back\<close>, \<open>back\<close> or \<open>operator[]\<close> on an empty vector, that overflow) the embedding
  returns \<open>None\<close>. Console output is left out, except for the values \<open>exibir_estado\<close>
  reads.
\<close>

subsection \<open>Class \<open>Cadeira\<close>\<close>

record Cadeira =
  id_jogador :: int

text \<open>The constructor \<open>Cadeira()\<close>: an id of 0 means that the seat is free.\<close>

definition nova_Cadeira :: Cadeira where
  "nova_Cadeira = \<lparr>id_jogador = 0\<rparr>"

definition set_id_jogador :: "int \<Rightarrow> Cadeira \<Rightarrow> Cadeira" where
  "set_id_jogador i c = c\<lparr>id_jogador := i\<rparr>"

definition get_id_jogador :: "Cadeira \<Rightarrow> int" where
  "get_id_jogador c = id_jogador c"

subsection \<open>Class \<open>JogoDasCadeiras\<close>\<close>

definition NUM_JOGADORES :: int where
  "NUM_JOGADORES = 4"

record JogoDasCadeiras =
  num_jogadores :: int
  cadeiras :: "Cadeira list"
  jogadores_eliminados :: "int list"

text \<open>
  The constructor: \<open>for (int i = 0; i < num_jogadores-1; i++) cadeiras_.emplace_back();\<close>
\<close>

function construtor_laco :: "int \<Rightarrow> int \<Rightarrow> Cadeira list \<Rightarrow> Cadeira list" where
  "construtor_laco i n cs =
     (if i < n - 1 then construtor_laco (i + 1) n (cs @ [nova_Cadeira]) else cs)"
  by pat_completeness auto
termination
  by (relation "measure (\<lambda>(i, n, cs). nat (n - 1 - i))") auto

declare construtor_laco.simps [simp del]

definition novo_JogoDasCadeiras :: "int \<Rightarrow> JogoDasCadeiras" where
  "novo_JogoDasCadeiras n =
     \<lparr>num_jogadores = n, cadeiras = construtor_laco 0 n [], jogadores_eliminados = []\<rparr>"

definition get_num_jogadores :: "JogoDasCadeiras \<Rightarrow> int" where
  "get_num_jogadores s = num_jogadores s"

text \<open>
  \<open>--this->num_jogadores_;\<close> on a 32-bit \<open>int\<close>: the decrement of the least \<open>int\<close>
  overflows, which C++ leaves undefined.
\<close>

definition INT_MIN :: int where
  "INT_MIN = - 2147483648"

definition eliminar_jogador :: "JogoDasCadeiras \<Rightarrow> JogoDasCadeiras option" where
  "eliminar_jogador s =
     (if num_jogadores s = INT_MIN then None
      else Some (s\<lparr>num_jogadores := num_jogadores s - 1\<rparr>))"

text \<open>
  \<open>pegar_cadeira\<close>: the range-for over \<open>cadeiras_\<close> stops (\<open>break\<close>) at the first seat whose
  id is 0, after writing the caller's id into it.
\<close>

fun pegar_laco :: "int \<Rightarrow> Cadeira list \<Rightarrow> bool \<times> Cadeira list" where
  "pegar_laco i [] = (False, [])"
| "pegar_laco i (c # cs) =
     (if get_id_jogador c = 0 then (True, set_id_jogador i c # cs)
      else (case pegar_laco i cs of (b, cs') \<Rightarrow> (b, c # cs')))"

definition pegar_cadeira :: "int \<Rightarrow> JogoDasCadeiras \<Rightarrow> bool \<times> JogoDasCadeiras" where
  "pegar_cadeira i s =
     (case pegar_laco i (cadeiras s) of (b, cs) \<Rightarrow> (b, s\<lparr>cadeiras := cs\<rparr>))"

text \<open>\<open>remover_cadeira\<close> is \<open>cadeiras_.pop_back()\<close>, undefined on an empty vector.\<close>

definition remover_cadeira :: "JogoDasCadeiras \<Rightarrow> JogoDasCadeiras option" where
  "remover_cadeira s =
     (if cadeiras s = [] then None else Some (s\<lparr>cadeiras := butlast (cadeiras s)\<rparr>))"

definition esvaziar_cadeiras :: "JogoDasCadeiras \<Rightarrow> JogoDasCadeiras" where
  "esvaziar_cadeiras s = s\<lparr>cadeiras := map (set_id_jogador 0) (cadeiras s)\<rparr>"

definition add_jogador_eliminado :: "int \<Rightarrow> JogoDasCadeiras \<Rightarrow> JogoDasCadeiras" where
  "add_jogador_eliminado i s = s\<lparr>jogadores_eliminados := jogadores_eliminados s @ [i]\<rparr>"

text \<open>\<open>get_id_vencedor\<close> reads \<open>cadeiras_[0]\<close>, undefined on an empty vector.\<close>

definition get_id_vencedor :: "JogoDasCadeiras \<Rightarrow> int option" where
  "get_id_vencedor s =
     (case cadeiras s of [] \<Rightarrow> None | c # _ \<Rightarrow> Some (get_id_jogador c))"

text \<open>
  \<open>exibir_estado\<close> prints, for \<open>i = 1 .. cadeiras_.size()\<close>, the number \<open>i\<close> and the id in
  \<open>cadeiras_[i-1]\<close>, and then \<open>jogadores_eliminados_.back()\<close>. The embedding returns the
  values printed; \<open>back()\<close> on an empty vector is undefined.
\<close>

record exibicao =
  linhas :: "(nat \<times> int) list"
  fora_do_jogo :: int

definition exibir_estado :: "JogoDasCadeiras \<Rightarrow> exibicao option" where
  "exibir_estado s =
     (if jogadores_eliminados s = [] then None
      else Some \<lparr>linhas = map (\<lambda>i. (i, get_id_jogador (cadeiras s ! (i - 1))))
                              [1 ..< Suc (length (cadeiras s))],
                 fora_do_jogo = last (jogadores_eliminados s)\<rparr>)"

subsection \<open>Sequences of seat operations\<close>

text \<open>
  The three methods that write to \<open>cadeiras_\<close>, as operations applied one after the
  other to the same object. A sequence stops (\<open>None\<close>) at a \<open>remover_cadeira\<close> on an empty
  vector.
\<close>

datatype operacao = Pegar int | Esvaziar | Remover

fun aplica :: "operacao \<Rightarrow> JogoDasCadeiras \<Rightarrow> JogoDasCadeiras option" where
  "aplica (Pegar i) s = Some (snd (pegar_cadeira i s))"
| "aplica Esvaziar s = Some (esvaziar_cadeiras s)"
| "aplica Remover s = remover_cadeira s"

fun executa_ops :: "operacao list \<Rightarrow> JogoDasCadeiras \<Rightarrow> JogoDasCadeiras option" where
  "executa_ops [] s = Some s"
| "executa_ops (x # xs) s =
     (case aplica x s of None \<Rightarrow> None | Some s' \<Rightarrow> executa_ops xs s')"

text \<open>
  The ids passed to \<open>pegar_cadeira\<close> since the last \<open>esvaziar_cadeiras\<close> are nonzero and
  pairwise distinct (\<open>usados\<close> holds the ids seen since the last clear).
\<close>

fun ids_distintos :: "int list \<Rightarrow> operacao list \<Rightarrow> bool" where
  "ids_distintos usados [] = True"
| "ids_distintos usados (Pegar i # xs) =
     (i \<noteq> 0 \<and> i \<notin> set usados \<and> ids_distintos (i # usados) xs)"
| "ids_distintos usados (Esvaziar # xs) = ids_distintos [] xs"
| "ids_distintos usados (Remover # xs) = ids_distintos usados xs"

text \<open>The ids that occupy seats, in seat order, and the number of free seats.\<close>

definition ocupantes :: "Cadeira list \<Rightarrow> int list" where
  "ocupantes cs = filter (\<lambda>i. i \<noteq> 0) (map id_jogador cs)"

definition livres :: "Cadeira list \<Rightarrow> nat" where
  "livres cs = length (filter (\<lambda>c. id_jogador c = 0) cs)"

section \<open>The program: semaphore, music flag and threads\<close>

subsection \<open>The counting semaphore\<close>

text \<open>
  \<open>cadeira_sem\<close> is a \<open>std::counting_semaphore<NUM_JOGADORES>\<close>; only its counter
  matters here. \<open>acquire()\<close> takes one permit and blocks while the counter is 0
  (\<open>None\<close>: the caller cannot proceed). \<open>try_acquire()\<close> takes one permit if there is
  one and reports whether it did; the standard also lets it fail although a permit is
  there, and \<open>falha\<close> says whether this call does. \<open>release(n)\<close> adds \<open>n\<close> and requires
  \<open>n \<ge> 0\<close> and a result of at most \<open>max()\<close>, where C++ only promises
  \<open>max() \<ge> NUM_JOGADORES\<close>: the embedding takes \<open>max() = NUM_JOGADORES\<close>, the
  smallest value allowed, and returns \<open>None\<close> when the precondition fails.
\<close>

definition sem_acquire :: "int \<Rightarrow> int option" where
  "sem_acquire k = (if 0 < k then Some (k - 1) else None)"

definition sem_try_acquire :: "bool \<Rightarrow> int \<Rightarrow> bool \<times> int" where
  "sem_try_acquire falha k = (if 0 < k \<and> \<not> falha then (True, k - 1) else (False, k))"

definition sem_release :: "int \<Rightarrow> int \<Rightarrow> int option" where
  "sem_release n k = (if 0 \<le> n \<and> k + n \<le> NUM_JOGADORES then Some (k + n) else None)"

subsection \<open>The threads\<close>

text \<open>
  The state of the whole program: the game object, the globals \<open>cadeira_sem\<close>,
  \<open>musica_parada\<close> and \<open>jogo_ativo\<close>, and for every thread the place it has reached
  in its code. A player thread (\<open>Jogador::joga\<close>) is at the top of its \<open>while\<close> loop
  (\<open>Topo\<close>), waiting for the music to stop (\<open>EsperaParada\<close>), at
  \<open>cadeira_sem.acquire()\<close> in \<open>tentar_ocupar_cadeira\<close>, line 188 (\<open>Correndo\<close>), past
  \<open>acquire\<close> and before \<open>music_mutex.lock()\<close>, line 190 (\<open>ComPermissao\<close>), back in
  \<open>joga\<close> with the result false and before \<open>add_jogador_eliminado\<close>, line 220
  (\<open>Perdeu\<close>), waiting for the music to start again (\<open>EsperaMusica\<close>), or has returned:
  after \<open>add_jogador_eliminado\<close> (\<open>Eliminado\<close>) or because \<open>jogo_ativo\<close> was false
  (\<open>Saiu\<close>). The coordinator (\<open>Coordenador::iniciar_jogo\<close>) has one place per statement
  of its loop: \<open>iniciar_rodada\<close> has three, for its test with \<open>esvaziar_cadeiras\<close>
  (\<open>CIniciar\<close>), for \<open>remover_cadeira\<close> (\<open>CRemover\<close>) and for its \<open>release\<close>
  (\<open>CRessinc\<close>); each polling loop has one for \<open>try_acquire\<close> and one for the
  \<open>release\<close> that follows a successful probe; the final \<open>if\<close> has one for the test with
  \<open>jogo_ativo = false\<close> (\<open>CVerifica\<close>) and one for the line that prints
  \<open>get_id_vencedor()\<close> (\<open>CVencedor\<close>). \<open>vencedor\<close> records the id printed as the winner.
\<close>

datatype estado_jogador =
  Topo | EsperaParada | Correndo | ComPermissao | Perdeu | EsperaMusica | Eliminado | Saiu

datatype estado_coordenador =
  CTopo | CIniciar | CRemover | CRessinc | CParar | CSonda1 | CDevolve1 | CEliminar
  | CLiberar | CSonda2 | CDevolve2 | CExibir | CVerifica | CVencedor | CComecar | CFim

record sistema =
  jogo :: JogoDasCadeiras
  cadeira_sem :: int
  musica_parada :: bool
  jogo_ativo :: bool
  coordenador :: estado_coordenador
  jogador :: "int \<Rightarrow> estado_jogador"
  vencedor :: "int option"

definition inicial :: sistema where
  "inicial = \<lparr>jogo = novo_JogoDasCadeiras NUM_JOGADORES, cadeira_sem = NUM_JOGADORES - 1,
     musica_parada = False, jogo_ativo = True, coordenador = CTopo,
     jogador = (\<lambda>i. Topo), vencedor = None\<rparr>"

text \<open>
  The methods of \<open>JogoDasCadeiras\<close> and \<open>Coordenador\<close> that use the globals and are
  one step of the coordinator each.
\<close>

definition comecar_musica :: "sistema \<Rightarrow> sistema" where
  "comecar_musica c = c\<lparr>musica_parada := False\<rparr>"

definition parar_musica :: "sistema \<Rightarrow> sistema" where
  "parar_musica c = c\<lparr>musica_parada := True\<rparr>"

definition liberar_threads_eliminadas :: "sistema \<Rightarrow> sistema option" where
  "liberar_threads_eliminadas c =
     (case sem_release 1 (cadeira_sem c) of
        None \<Rightarrow> None
      | Some k \<Rightarrow> Some (c\<lparr>cadeira_sem := k\<rparr>))"

text \<open>
  One step of player \<open>i\<close>, one statement of \<open>joga\<close> or \<open>tentar_ocupar_cadeira\<close> at a
  time. A thread that cannot proceed (its wait condition is false, or \<open>acquire\<close>
  blocks) leaves the state as it is. \<open>pegar_cadeira\<close> runs between
  \<open>music_mutex.lock()\<close> and \<open>unlock()\<close> and is one step; no lock spans \<open>acquire\<close>,
  \<open>pegar_cadeira\<close> and \<open>add_jogador_eliminado\<close>, so other threads can step in between.
\<close>

definition passo_jogador :: "int \<Rightarrow> sistema \<Rightarrow> sistema" where
  "passo_jogador i c =
     (case jogador c i of
        Topo \<Rightarrow>
          if jogo_ativo c then c\<lparr>jogador := (jogador c)(i := EsperaParada)\<rparr>
          else c\<lparr>jogador := (jogador c)(i := Saiu)\<rparr>
      | EsperaParada \<Rightarrow>
          if musica_parada c then c\<lparr>jogador := (jogador c)(i := Correndo)\<rparr> else c
      | Correndo \<Rightarrow>
          (case sem_acquire (cadeira_sem c) of
             None \<Rightarrow> c
           | Some k \<Rightarrow> c\<lparr>cadeira_sem := k, jogador := (jogador c)(i := ComPermissao)\<rparr>)
      | ComPermissao \<Rightarrow>
          (case pegar_cadeira i (jogo c) of
             (ret, g) \<Rightarrow>
               c\<lparr>jogo := g, jogador := (jogador c)(i := if ret then EsperaMusica else Perdeu)\<rparr>)
      | Perdeu \<Rightarrow>
          c\<lparr>jogo := add_jogador_eliminado i (jogo c), jogador := (jogador c)(i := Eliminado)\<rparr>
      | EsperaMusica \<Rightarrow>
          if musica_parada c then c else c\<lparr>jogador := (jogador c)(i := Topo)\<rparr>
      | Eliminado \<Rightarrow> c
      | Saiu \<Rightarrow> c)"

text \<open>
  The coordinator: \<open>sonda\<close> is the \<open>try_acquire\<close> of a polling loop, \<open>devolve\<close> the
  \<open>release\<close> (and sleep) of its body. \<open>None\<close> is undefined behaviour: a \<open>release\<close>
  beyond \<open>max()\<close>, \<open>pop_back\<close>, \<open>back\<close> or \<open>operator[]\<close> on an empty vector, the
  overflow of \<open>num_jogadores_\<close>. \<open>iniciar_rodada\<close> clears the seats, removes one and
  releases \<open>num_jogadores_ - 1\<close> permits, except in the first round
  (\<open>num_jogadores_ = NUM_JOGADORES\<close>). The sleeps take no step: a sleep can be as short
  as 0 ms (\<open>distrib(0, 10)\<close>) and orders nothing.
\<close>

definition sonda ::
  "bool \<Rightarrow> estado_coordenador \<Rightarrow> estado_coordenador \<Rightarrow> sistema \<Rightarrow> sistema" where
  "sonda falha devolve segue c =
     (case sem_try_acquire falha (cadeira_sem c) of
        (True, k) \<Rightarrow> c\<lparr>cadeira_sem := k, coordenador := devolve\<rparr>
      | (False, k) \<Rightarrow> c\<lparr>cadeira_sem := k, coordenador := segue\<rparr>)"

definition devolve :: "estado_coordenador \<Rightarrow> sistema \<Rightarrow> sistema option" where
  "devolve sonda_pc c =
     (case sem_release 1 (cadeira_sem c) of
        None \<Rightarrow> None
      | Some k \<Rightarrow> Some (c\<lparr>cadeira_sem := k, coordenador := sonda_pc\<rparr>))"

definition passo_coordenador :: "bool \<Rightarrow> sistema \<Rightarrow> sistema option" where
  "passo_coordenador falha c =
     (case coordenador c of
        CTopo \<Rightarrow> Some (c\<lparr>coordenador := (if jogo_ativo c then CIniciar else CFim)\<rparr>)
      | CIniciar \<Rightarrow>
          (if num_jogadores (jogo c) < NUM_JOGADORES then
             Some (c\<lparr>jogo := esvaziar_cadeiras (jogo c), coordenador := CRemover\<rparr>)
           else Some (c\<lparr>coordenador := CParar\<rparr>))
      | CRemover \<Rightarrow>
          (case remover_cadeira (jogo c) of
             None \<Rightarrow> None
           | Some g \<Rightarrow> Some (c\<lparr>jogo := g, coordenador := CRessinc\<rparr>))
      | CRessinc \<Rightarrow>
          (case sem_release (num_jogadores (jogo c) - 1) (cadeira_sem c) of
             None \<Rightarrow> None
           | Some k \<Rightarrow> Some (c\<lparr>cadeira_sem := k, coordenador := CParar\<rparr>))
      | CParar \<Rightarrow> Some ((parar_musica c)\<lparr>coordenador := CSonda1\<rparr>)
      | CSonda1 \<Rightarrow> Some (sonda falha CDevolve1 CEliminar c)
      | CDevolve1 \<Rightarrow> devolve CSonda1 c
      | CEliminar \<Rightarrow>
          (case eliminar_jogador (jogo c) of
             None \<Rightarrow> None
           | Some g \<Rightarrow> Some (c\<lparr>jogo := g, coordenador := CLiberar\<rparr>))
      | CLiberar \<Rightarrow>
          (case liberar_threads_eliminadas c of
             None \<Rightarrow> None
           | Some c' \<Rightarrow> Some (c'\<lparr>coordenador := CSonda2\<rparr>))
      | CSonda2 \<Rightarrow> Some (sonda falha CDevolve2 CExibir c)
      | CDevolve2 \<Rightarrow> devolve CSonda2 c
      | CExibir \<Rightarrow>
          (case exibir_estado (jogo c) of
             None \<Rightarrow> None
           | Some e \<Rightarrow> Some (c\<lparr>coordenador := CVerifica\<rparr>))
      | CVerifica \<Rightarrow>
          (if get_num_jogadores (jogo c) = 1 then
             Some (c\<lparr>jogo_ativo := False, coordenador := CVencedor\<rparr>)
           else Some (c\<lparr>coordenador := CComecar\<rparr>))
      | CVencedor \<Rightarrow>
          (case get_id_vencedor (jogo c) of
             None \<Rightarrow> None
           | Some w \<Rightarrow> Some (c\<lparr>vencedor := Some w, coordenador := CComecar\<rparr>))
      | CComecar \<Rightarrow> Some ((comecar_musica c)\<lparr>coordenador := CTopo\<rparr>)
      | CFim \<Rightarrow> Some c)"

text \<open>
  A run is a list of events, each naming the thread that takes the next step; player
  threads exist for the ids \<open>1..NUM_JOGADORES\<close> (\<open>main\<close>). \<open>Coord_espurio\<close> is a step
  of the coordinator in which \<open>try_acquire\<close>, if that is its next statement, fails
  whatever the counter is.
\<close>

datatype evento = Coord | Coord_espurio | Jog int

fun passo :: "evento \<Rightarrow> sistema \<Rightarrow> sistema option" where
  "passo Coord c = passo_coordenador False c"
| "passo Coord_espurio c = passo_coordenador True c"
| "passo (Jog i) c =
     Some (if 1 \<le> i \<and> i \<le> NUM_JOGADORES then passo_jogador i c else c)"

fun executa :: "evento list \<Rightarrow> sistema \<Rightarrow> sistema option" where
  "executa [] c = Some c"
| "executa (e # es) c = (case passo e c of None \<Rightarrow> None | Some c' \<Rightarrow> executa es c')"

subsection \<open>What the coordinator can rely on\<close>

text \<open>
  What the coordinator can rely on at each place of its loop, whatever the players do:
  the player count \<open>n\<close>, the number of seats \<open>l\<close>, the permits \<open>k\<close> and \<open>jogo_ativo\<close>.
\<close>

fun inv_lugar :: "estado_coordenador \<Rightarrow> int \<Rightarrow> int \<Rightarrow> int \<Rightarrow> bool \<Rightarrow> bool" where
  "inv_lugar CTopo n l k a =
     (if n = NUM_JOGADORES then l = n - 1 \<and> a else l = n \<and> k = 0 \<and> (a \<longleftrightarrow> n \<noteq> 1))"
| "inv_lugar CIniciar n l k a =
     (a \<and> (if n = NUM_JOGADORES then l = n - 1 else l = n \<and> k = 0 \<and> n \<noteq> 1))"
| "inv_lugar CRemover n l k a = (a \<and> n < NUM_JOGADORES \<and> n \<noteq> 1 \<and> l = n \<and> k = 0)"
| "inv_lugar CRessinc n l k a = (a \<and> n < NUM_JOGADORES \<and> 2 \<le> n \<and> l = n - 1 \<and> k = 0)"
| "inv_lugar CParar n l k a = (a \<and> 2 \<le> n \<and> l = n - 1)"
| "inv_lugar CSonda1 n l k a = (a \<and> 2 \<le> n \<and> l = n - 1)"
| "inv_lugar CDevolve1 n l k a = (a \<and> 2 \<le> n \<and> l = n - 1 \<and> k + 1 \<le> l)"
| "inv_lugar CEliminar n l k a = (a \<and> 2 \<le> n \<and> l = n - 1 \<and> k = 0)"
| "inv_lugar CLiberar n l k a = (a \<and> n < NUM_JOGADORES \<and> l = n \<and> k = 0)"
| "inv_lugar CSonda2 n l k a = (a \<and> n < NUM_JOGADORES \<and> l = n \<and> k \<le> 1)"
| "inv_lugar CDevolve2 n l k a = (a \<and> n < NUM_JOGADORES \<and> l = n \<and> k = 0)"
| "inv_lugar CExibir n l k a = (a \<and> n < NUM_JOGADORES \<and> l = n \<and> k = 0)"
| "inv_lugar CVerifica n l k a = (a \<and> n < NUM_JOGADORES \<and> l = n \<and> k = 0)"
| "inv_lugar CVencedor n l k a = (\<not> a \<and> n = 1 \<and> l = n \<and> k = 0)"
| "inv_lugar CComecar n l k a =
     (n < NUM_JOGADORES \<and> l = n \<and> k = 0 \<and> (a \<longleftrightarrow> n \<noteq> 1))"
| "inv_lugar CFim n l k a = (\<not> a \<and> n = 1 \<and> l = n \<and> k = 0)"

definition inv_sem :: "sistema \<Rightarrow> bool" where
  "inv_sem c \<longleftrightarrow>
     1 \<le> num_jogadores (jogo c) \<and> num_jogadores (jogo c) \<le> NUM_JOGADORES \<and>
     0 \<le> cadeira_sem c \<and> cadeira_sem c \<le> int (length (cadeiras (jogo c))) \<and>
     inv_lugar (coordenador c) (num_jogadores (jogo c)) (int (length (cadeiras (jogo c))))
       (cadeira_sem c) (jogo_ativo c)"





subsection \<open>Observations and schedules\<close>

text \<open>
  The values of a state that the examples look at: \<open>num_jogadores_\<close>, the ids on the
  seats, the elimination log, the permits of \<open>cadeira_sem\<close>, \<open>musica_parada\<close>,
  \<open>jogo_ativo\<close>, the coordinator's place, the places of the players 1 to 4, and the
  winner printed.
\<close>

type_synonym observacao =
  "int \<times> int list \<times> int list \<times> int \<times> bool \<times> bool \<times>
   estado_coordenador \<times> estado_jogador list \<times> int option"

definition observa :: "sistema option \<Rightarrow> observacao option" where
  "observa r = map_option (\<lambda>c. (num_jogadores (jogo c), map id_jogador (cadeiras (jogo c)),
      jogadores_eliminados (jogo c), cadeira_sem c, musica_parada c, jogo_ativo c,
      coordenador c, map (jogador c) [1 .. NUM_JOGADORES], vencedor c)) r"

text \<open>
  The events of one round played in order. \<open>corrida ws l\<close>: the coordinator starts the
  round and stops the music (in the first round, where \<open>iniciar_rodada\<close> has nothing to
  do, it also probes and restores once), the players \<open>ws\<close> sit one after the other (four
  steps each), \<open>l\<close> reaches \<open>acquire\<close> and blocks, the coordinator's first polling loop
  ends and it calls \<open>eliminar_jogador\<close> and \<open>release\<close>, \<open>l\<close> takes the permit, finds no
  seat and logs itself. In \<open>rodada_eventos ws l\<close> the coordinator then finishes its
  iteration and the players \<open>ws\<close> wake. \<open>partida\<close> is a complete game played in this way;
  after its last round the coordinator leaves its loop and the winner wakes.
\<close>

definition corrida :: "int list \<Rightarrow> int \<Rightarrow> evento list" where
  "corrida ws l =
     replicate 5 Coord @ concat (map (\<lambda>i. replicate 4 (Jog i)) ws) @ replicate 2 (Jog l) @
     [Coord, Coord, Coord] @ replicate 3 (Jog l)"

definition rodada_eventos :: "int list \<Rightarrow> int \<Rightarrow> evento list" where
  "rodada_eventos ws l = corrida ws l @ [Coord, Coord, Coord, Coord] @ map Jog ws"

definition partida :: "evento list" where
  "partida =
     rodada_eventos [1, 2, 3] 4 @ rodada_eventos [3, 1] 2 @ corrida [3] 1 @
     replicate 5 Coord @ [Jog 3]"

text \<open>
  Round 2 with a slow loser: players 1 and 2 sit, player 3 blocks in \<open>acquire\<close>; after
  \<open>eliminar_jogador\<close> and \<open>release\<close> player 3 returns from \<open>acquire\<close> (line 188) and
  takes no further step while the coordinator finishes its iteration and players 1 and
  2 wake.
\<close>

definition rodada_atrasada :: "evento list" where
  "rodada_atrasada =
     replicate 5 Coord @ replicate 4 (Jog 1) @ replicate 4 (Jog 2) @ replicate 2 (Jog 3) @
     [Coord, Coord, Coord, Jog 3, Coord, Coord, Coord, Coord, Jog 1, Jog 2]"

text \<open>
  The round 3 that follows it: after \<open>iniciar_rodada\<close> player 3 goes on to
  \<open>pegar_cadeira\<close> and comes round to the top of its loop; the music stops; player 1
  takes the permit of the round, finds no seat and logs itself; player 3 reaches
  \<open>acquire\<close>; after \<open>eliminar_jogador\<close> and \<open>release\<close> player 2 takes the permit, finds
  no seat and logs itself; the coordinator finishes its iteration and leaves its loop.
\<close>

definition rodada_de_tres :: "evento list" where
  "rodada_de_tres =
     [Coord, Coord, Coord, Coord, Jog 3, Jog 3, Jog 3, Coord] @ replicate 5 (Jog 1) @
     [Jog 3, Jog 3, Coord, Coord, Coord] @ replicate 5 (Jog 2) @ replicate 6 Coord @ [Jog 3]"

text \<open>
  A round 3, after two rounds played in order, in which nobody reaches
  \<open>pegar_cadeira\<close> in time: player 3 returns from \<open>acquire\<close> and takes no further
  step, the coordinator's first polling loop ends, it calls \<open>eliminar_jogador\<close> and
  \<open>release\<close>, player 1 returns from \<open>acquire\<close> and takes no further step, and the
  coordinator goes on to its check and prints the winner.
\<close>

definition rodada_sem_sentar :: "evento list" where
  "rodada_sem_sentar =
     replicate 5 Coord @ replicate 3 (Jog 3) @ [Coord, Coord, Coord] @ replicate 3 (Jog 1) @
     [Coord, Coord, Coord, Coord]"

text \<open>
  A game in which player 1, seated in round 2, takes no step between \<open>comecar_musica\<close>
  and the next \<open>parar_musica\<close> (the coordinator's sleep between them can be 0 ms):
  in round 3 only player 3 races and sits, and the coordinator calls
  \<open>eliminar_jogador\<close> and \<open>release\<close>.
\<close>

definition rodada_sem_acordar :: "evento list" where
  "rodada_sem_acordar =
     butlast (rodada_eventos [1, 2, 3] 4 @ rodada_eventos [3, 1] 2) @
     replicate 5 Coord @ replicate 4 (Jog 3) @ [Coord, Coord, Coord]"

subsection \<open>The lock around the calls\<close>

text \<open>
  The synchronisation statements of one pass through \<open>tentar_ocupar_cadeira\<close>, through
  the body of the loop of \<open>joga\<close> (\<open>ret\<close> is the result of \<open>tentar_ocupar_cadeira\<close>) and
  through the body of the loop of \<open>iniciar_jogo\<close> (\<open>fim\<close> is \<open>get_num_jogadores() == 1\<close>),
  in program order, with the methods of the game object they call. \<open>k1\<close> and \<open>k2\<close> count
  the iterations of the two waiting loops. \<open>parar_musica\<close> and \<open>comecar_musica\<close> lock and
  unlock \<open>music_mutex\<close> and touch no field of the game object. \<open>sem_mutex h xs\<close> lists
  the methods that \<open>xs\<close> calls while \<open>music_mutex\<close> is not held (\<open>h\<close>: held at the
  start).
\<close>

datatype metodo =
  Iniciar_rodada | Eliminar_jogador | Exibir_estado | Pegar_cadeira
  | Get_num_jogadores | Get_id_vencedor | Add_jogador_eliminado

datatype instrucao =
  Lock | Unlock | Wait | Acquire | Try_acquire | Release | Sleep | Chama metodo

definition tentar_ocupar_cadeira_instrucoes :: "instrucao list" where
  "tentar_ocupar_cadeira_instrucoes = [Acquire, Lock, Chama Pegar_cadeira, Unlock]"

definition joga_instrucoes :: "nat \<Rightarrow> nat \<Rightarrow> bool \<Rightarrow> instrucao list" where
  "joga_instrucoes k1 k2 ret =
     [Lock] @ replicate k1 Wait @ [Unlock] @ tentar_ocupar_cadeira_instrucoes @
     (if ret then [Lock] @ replicate k2 Wait @ [Unlock]
      else [Chama Add_jogador_eliminado])"

definition sondagem :: "nat \<Rightarrow> instrucao list" where
  "sondagem k = concat (replicate k [Try_acquire, Release, Sleep]) @ [Try_acquire]"

definition iniciar_jogo_instrucoes :: "nat \<Rightarrow> nat \<Rightarrow> bool \<Rightarrow> instrucao list" where
  "iniciar_jogo_instrucoes k1 k2 fim =
     [Chama Iniciar_rodada, Sleep, Lock, Unlock] @ sondagem k1 @
     [Chama Eliminar_jogador, Release] @ sondagem k2 @
     [Chama Exibir_estado, Chama Get_num_jogadores] @
     (if fim then [Chama Get_id_vencedor] else []) @ [Lock, Unlock]"

fun sem_mutex :: "bool \<Rightarrow> instrucao list \<Rightarrow> metodo list" where
  "sem_mutex h [] = []"
| "sem_mutex h (Lock # xs) = sem_mutex True xs"
| "sem_mutex h (Unlock # xs) = sem_mutex False xs"
| "sem_mutex h (Chama m # xs) = (if h then sem_mutex h xs else m # sem_mutex h xs)"
| "sem_mutex h (x # xs) = sem_mutex h xs"

section \<open>Properties of the game state\<close>

subsection \<open>The seat scan\<close>

lemma pegar_laco_length: "length (snd (pegar_laco i cs)) = length cs"
  by (induction cs) (auto simp: set_id_jogador_def split: prod.splits)

lemma pegar_laco_False:
  "\<not> fst (pegar_laco i cs) \<Longrightarrow> snd (pegar_laco i cs) = cs"
  by (induction cs) (auto split: prod.splits if_splits)

lemma pegar_laco_iff:
  "fst (pegar_laco i cs) \<longleftrightarrow> (\<exists>c\<in>set cs. id_jogador c = 0)"
  by (induction cs) (auto simp: get_id_jogador_def split: prod.splits)

lemma pegar_laco_True:
  "fst (pegar_laco i cs) \<Longrightarrow>
     \<exists>k<length cs. id_jogador (cs ! k) = 0 \<and> (\<forall>j<k. id_jogador (cs ! j) \<noteq> 0) \<and>
       snd (pegar_laco i cs) = cs[k := \<lparr>id_jogador = i\<rparr>]"
proof (induction cs)
  case Nil
  then show ?case by simp
next
  case (Cons c cs)
  show ?case
  proof (cases "id_jogador c = 0")
    case True
    then have "snd (pegar_laco i (c # cs)) = (c # cs)[0 := \<lparr>id_jogador = i\<rparr>]"
      by (simp add: get_id_jogador_def set_id_jogador_def)
    with True show ?thesis by (intro exI [of _ 0]) simp
  next
    case False
    with Cons.prems have "fst (pegar_laco i cs)"
      by (simp add: get_id_jogador_def split: prod.splits)
    from Cons.IH [OF this] obtain k where k: "k < length cs" "id_jogador (cs ! k) = 0"
      "\<forall>j<k. id_jogador (cs ! j) \<noteq> 0" "snd (pegar_laco i cs) = cs[k := \<lparr>id_jogador = i\<rparr>]"
      by blast
    have "\<forall>j<Suc k. id_jogador ((c # cs) ! j) \<noteq> 0"
      using False k(3) by (auto simp: less_Suc_eq_0_disj)
    moreover have "snd (pegar_laco i (c # cs)) = (c # cs)[Suc k := \<lparr>id_jogador = i\<rparr>]"
      using False k(4) by (cases "pegar_laco i cs") (simp add: get_id_jogador_def)
    ultimately show ?thesis
      using k(1,2) by (intro exI [of _ "Suc k"]) simp
  qed
qed

text \<open>
  Claim C1. \<open>pegar_cadeira\<close> returns true exactly when some seat is free (id 0) before
  the call. On success the first free seat in scan order gets the caller's id and nothing
  else changes; on failure the object is unchanged.
\<close>

theorem pegar_cadeira_first_free:
  "(fst (pegar_cadeira i s) \<longleftrightarrow> (\<exists>c\<in>set (cadeiras s). id_jogador c = 0)) \<and>
   (fst (pegar_cadeira i s) \<longrightarrow>
      (\<exists>k<length (cadeiras s).
          id_jogador (cadeiras s ! k) = 0 \<and>
          (\<forall>j<k. id_jogador (cadeiras s ! j) \<noteq> 0) \<and>
          snd (pegar_cadeira i s) = s\<lparr>cadeiras := (cadeiras s)[k := \<lparr>id_jogador = i\<rparr>]\<rparr>)) \<and>
   (\<not> fst (pegar_cadeira i s) \<longrightarrow> snd (pegar_cadeira i s) = s)"
proof -
  have f: "fst (pegar_cadeira i s) = fst (pegar_laco i (cadeiras s))"
    and g: "snd (pegar_cadeira i s) = s\<lparr>cadeiras := snd (pegar_laco i (cadeiras s))\<rparr>"
    by (simp_all add: pegar_cadeira_def split: prod.splits)
  have "fst (pegar_cadeira i s) \<longleftrightarrow> (\<exists>c\<in>set (cadeiras s). id_jogador c = 0)"
    by (simp only: f pegar_laco_iff)
  moreover have "\<exists>k<length (cadeiras s).
          id_jogador (cadeiras s ! k) = 0 \<and>
          (\<forall>j<k. id_jogador (cadeiras s ! j) \<noteq> 0) \<and>
          snd (pegar_cadeira i s) = s\<lparr>cadeiras := (cadeiras s)[k := \<lparr>id_jogador = i\<rparr>]\<rparr>"
    if "fst (pegar_cadeira i s)"
    using pegar_laco_True [of i "cadeiras s"] that by (auto simp: f g)
  moreover have "snd (pegar_cadeira i s) = s" if "\<not> fst (pegar_cadeira i s)"
    using pegar_laco_False [of i "cadeiras s"] that by (simp add: f g)
  ultimately show ?thesis by blast
qed

theorem pegar_cadeira_first_free_witness:
  "(\<exists>c\<in>set [\<lparr>id_jogador = 7\<rparr>, \<lparr>id_jogador = 0\<rparr>, \<lparr>id_jogador = 0\<rparr>]. id_jogador c = 0) \<and>
   pegar_cadeira 9 \<lparr>num_jogadores = 4,
       cadeiras = [\<lparr>id_jogador = 7\<rparr>, \<lparr>id_jogador = 0\<rparr>, \<lparr>id_jogador = 0\<rparr>],
       jogadores_eliminados = []\<rparr> =
     (True, \<lparr>num_jogadores = 4,
       cadeiras = [\<lparr>id_jogador = 7\<rparr>, \<lparr>id_jogador = 9\<rparr>, \<lparr>id_jogador = 0\<rparr>],
       jogadores_eliminados = []\<rparr>) \<and>
   \<not> (\<exists>c\<in>set [\<lparr>id_jogador = 7\<rparr>, \<lparr>id_jogador = 8\<rparr>]. id_jogador c = 0) \<and>
   pegar_cadeira 9 \<lparr>num_jogadores = 3,
       cadeiras = [\<lparr>id_jogador = 7\<rparr>, \<lparr>id_jogador = 8\<rparr>],
       jogadores_eliminados = [5]\<rparr> =
     (False, \<lparr>num_jogadores = 3,
       cadeiras = [\<lparr>id_jogador = 7\<rparr>, \<lparr>id_jogador = 8\<rparr>],
       jogadores_eliminados = [5]\<rparr>)"
  using pegar_cadeira_first_free [of 9 "\<lparr>num_jogadores = 4,
       cadeiras = [\<lparr>id_jogador = 7\<rparr>, \<lparr>id_jogador = 0\<rparr>, \<lparr>id_jogador = 0\<rparr>],
       jogadores_eliminados = []\<rparr>"]
    pegar_cadeira_first_free [of 9 "\<lparr>num_jogadores = 3,
       cadeiras = [\<lparr>id_jogador = 7\<rparr>, \<lparr>id_jogador = 8\<rparr>],
       jogadores_eliminados = [5]\<rparr>"]
  by (simp add: pegar_cadeira_def get_id_jogador_def set_id_jogador_def)

subsection \<open>Clearing the seats\<close>

text \<open>
  Claim C9. \<open>esvaziar_cadeiras\<close> sets the id of every seat to 0, keeps the number of
  seats (and the other fields), and applying it twice gives what applying it once gives.
\<close>

theorem esvaziar_cadeiras_idempotent:
  "cadeiras (esvaziar_cadeiras s) = replicate (length (cadeiras s)) \<lparr>id_jogador = 0\<rparr> \<and>
   length (cadeiras (esvaziar_cadeiras s)) = length (cadeiras s) \<and>
   num_jogadores (esvaziar_cadeiras s) = num_jogadores s \<and>
   jogadores_eliminados (esvaziar_cadeiras s) = jogadores_eliminados s \<and>
   esvaziar_cadeiras (esvaziar_cadeiras s) = esvaziar_cadeiras s"
proof -
  have "map (set_id_jogador 0) cs = replicate (length cs) \<lparr>id_jogador = 0\<rparr>" for cs
    by (induction cs) (simp_all add: set_id_jogador_def)
  then show ?thesis
    by (simp add: esvaziar_cadeiras_def set_id_jogador_def)
qed

subsection \<open>The display\<close>

text \<open>
  Claim C10. \<open>exibir_estado\<close> has a result exactly when the elimination log is not
  empty; then it reports every seat with its occupant and the last id of the log. On the
  empty log it has no defined result.
\<close>

theorem exibir_estado_defined_iff:
  "(exibir_estado s = None \<longleftrightarrow> jogadores_eliminados s = []) \<and>
   (jogadores_eliminados s \<noteq> [] \<longrightarrow>
      (\<exists>e. exibir_estado s = Some e \<and>
           fora_do_jogo e = last (jogadores_eliminados s) \<and>
           map snd (linhas e) = map id_jogador (cadeiras s) \<and>
           map fst (linhas e) = [1 ..< Suc (length (cadeiras s))]))"
proof -
  have "map (\<lambda>i. id_jogador (cs ! (i - 1))) [1 ..< Suc (length cs)] = map id_jogador cs"
    for cs :: "Cadeira list"
  proof -
    have "[1 ..< Suc (length cs)] = map Suc [0 ..< length cs]"
      by (simp only: map_Suc_upt One_nat_def)
    then have "map (\<lambda>i. id_jogador (cs ! (i - 1))) [1 ..< Suc (length cs)] =
        map (\<lambda>i. id_jogador (cs ! i)) [0 ..< length cs]"
      by (simp only: map_map o_def diff_Suc_1)
    also have "\<dots> = map id_jogador (map (\<lambda>i. cs ! i) [0 ..< length cs])"
      by (simp only: map_map o_def)
    also have "\<dots> = map id_jogador cs"
      by (simp only: map_nth)
    finally show ?thesis .
  qed
  then show ?thesis
    by (simp add: exibir_estado_def get_id_jogador_def o_def del: upt_Suc)
qed

theorem exibir_estado_defined_iff_witness:
  "jogadores_eliminados \<lparr>num_jogadores = 3,
       cadeiras = [\<lparr>id_jogador = 2\<rparr>, \<lparr>id_jogador = 4\<rparr>, \<lparr>id_jogador = 1\<rparr>],
       jogadores_eliminados = [3]\<rparr> \<noteq> [] \<and>
   exibir_estado \<lparr>num_jogadores = 3,
       cadeiras = [\<lparr>id_jogador = 2\<rparr>, \<lparr>id_jogador = 4\<rparr>, \<lparr>id_jogador = 1\<rparr>],
       jogadores_eliminados = [3]\<rparr> =
     Some \<lparr>linhas = [(1, 2), (2, 4), (3, 1)], fora_do_jogo = 3\<rparr> \<and>
   exibir_estado \<lparr>num_jogadores = 4,
       cadeiras = [\<lparr>id_jogador = 2\<rparr>, \<lparr>id_jogador = 4\<rparr>, \<lparr>id_jogador = 1\<rparr>],
       jogadores_eliminados = []\<rparr> = None"
  using exibir_estado_defined_iff [of "\<lparr>num_jogadores = 3,
       cadeiras = [\<lparr>id_jogador = 2\<rparr>, \<lparr>id_jogador = 4\<rparr>, \<lparr>id_jogador = 1\<rparr>],
       jogadores_eliminados = [3]\<rparr>"]
    exibir_estado_defined_iff [of "\<lparr>num_jogadores = 4,
       cadeiras = [\<lparr>id_jogador = 2\<rparr>, \<lparr>id_jogador = 4\<rparr>, \<lparr>id_jogador = 1\<rparr>],
       jogadores_eliminados = []\<rparr>"]
  by (simp add: exibir_estado_def get_id_jogador_def upt_rec)

subsection \<open>Occupancy\<close>

lemma construtor_laco_replicate:
  "construtor_laco i n cs = cs @ replicate (nat (n - 1 - i)) nova_Cadeira"
proof (induction i n cs rule: construtor_laco.induct)
  case (1 i n cs)
  show ?case
  proof (cases "i < n - 1")
    case True
    then have "nat (n - 1 - i) = Suc (nat (n - 1 - (i + 1)))" by simp
    with True "1" show ?thesis
      by (subst construtor_laco.simps) (simp add: replicate_app_Cons_same)
  next
    case False
    then show ?thesis by (subst construtor_laco.simps) simp
  qed
qed

lemma cadeiras_novo:
  "cadeiras (novo_JogoDasCadeiras n) = replicate (nat (n - 1)) nova_Cadeira"
  by (simp add: novo_JogoDasCadeiras_def construtor_laco_replicate)

lemma ocupantes_replicate [simp]: "ocupantes (replicate k nova_Cadeira) = []"
  by (induction k) (simp_all add: ocupantes_def nova_Cadeira_def)

lemma livres_replicate [simp]: "livres (replicate k nova_Cadeira) = k"
  by (induction k) (simp_all add: livres_def nova_Cadeira_def)

lemma ocupantes_livres: "length (ocupantes cs) + livres cs = length cs"
  by (induction cs) (simp_all add: ocupantes_def livres_def)

lemma ocupantes_esvaziar [simp]: "ocupantes (map (set_id_jogador 0) cs) = []"
  by (induction cs) (simp_all add: ocupantes_def set_id_jogador_def)

lemma ocupantes_append: "ocupantes (xs @ ys) = ocupantes xs @ ocupantes ys"
  by (simp add: ocupantes_def)

lemma ocupantes_butlast:
  "\<exists>zs. ocupantes cs = ocupantes (butlast cs) @ zs"
proof (cases "cs = []")
  case True
  then show ?thesis by simp
next
  case False
  have "ocupantes (butlast cs @ [last cs]) = ocupantes (butlast cs) @ ocupantes [last cs]"
    by (rule ocupantes_append)
  then have "ocupantes cs = ocupantes (butlast cs) @ ocupantes [last cs]"
    by (simp only: append_butlast_last_id [OF False])
  then show ?thesis by blast
qed

lemma ocupantes_Cons:
  "ocupantes (c # cs) = (if id_jogador c = 0 then ocupantes cs else id_jogador c # ocupantes cs)"
  by (simp add: ocupantes_def)

lemma livres_Cons:
  "livres (c # cs) = (if id_jogador c = 0 then Suc (livres cs) else livres cs)"
  by (simp add: livres_def)

lemma pegar_laco_Cons:
  "fst (pegar_laco i (c # cs)) = (id_jogador c = 0 \<or> fst (pegar_laco i cs))"
  "snd (pegar_laco i (c # cs)) =
     (if id_jogador c = 0 then \<lparr>id_jogador = i\<rparr> # cs else c # snd (pegar_laco i cs))"
  by (cases "pegar_laco i cs"; simp add: get_id_jogador_def set_id_jogador_def)+

declare pegar_laco.simps(2) [simp del]

lemma pegar_laco_ocupantes_set:
  "i \<noteq> 0 \<Longrightarrow> fst (pegar_laco i cs) \<Longrightarrow>
     set (ocupantes (snd (pegar_laco i cs))) = insert i (set (ocupantes cs))"
proof (induction cs)
  case Nil
  then show ?case by simp
next
  case (Cons c cs)
  then show ?case
    by (cases "id_jogador c = 0")
       (auto simp: pegar_laco_Cons ocupantes_Cons)
qed

lemma pegar_laco_ocupantes_distinct:
  "i \<noteq> 0 \<Longrightarrow> fst (pegar_laco i cs) \<Longrightarrow> i \<notin> set (ocupantes cs) \<Longrightarrow>
     distinct (ocupantes cs) \<Longrightarrow> distinct (ocupantes (snd (pegar_laco i cs)))"
proof (induction cs)
  case Nil
  then show ?case by simp
next
  case (Cons c cs)
  show ?case
  proof (cases "id_jogador c = 0")
    case True
    with Cons.prems show ?thesis
      by (simp add: pegar_laco_Cons ocupantes_Cons)
  next
    case False
    with Cons.prems have p: "fst (pegar_laco i cs)" "i \<notin> set (ocupantes cs)"
      "distinct (ocupantes cs)" "id_jogador c \<notin> set (ocupantes cs)" "id_jogador c \<noteq> i"
      by (auto simp: pegar_laco_Cons ocupantes_Cons)
    from Cons.IH [OF Cons.prems(1) p(1,2,3)] pegar_laco_ocupantes_set [OF Cons.prems(1) p(1)] p(4,5) False
    show ?thesis
      by (simp add: pegar_laco_Cons ocupantes_Cons)
  qed
qed

lemma pegar_laco_livres:
  "fst (pegar_laco i cs) \<Longrightarrow> i \<noteq> 0 \<Longrightarrow> Suc (livres (snd (pegar_laco i cs))) = livres cs"
proof (induction cs)
  case Nil
  then show ?case by simp
next
  case (Cons c cs)
  then show ?case
    by (cases "id_jogador c = 0") (simp_all add: pegar_laco_Cons livres_Cons)
qed

lemma aplica_ocupantes:
  assumes "aplica x s = Some s'" "ids_distintos usados (x # xs)"
    and "distinct (ocupantes (cadeiras s))" "set (ocupantes (cadeiras s)) \<subseteq> set usados"
  shows "\<exists>usados'. ids_distintos usados' xs \<and> distinct (ocupantes (cadeiras s')) \<and>
           set (ocupantes (cadeiras s')) \<subseteq> set usados'"
proof (cases x)
  case (Pegar i)
  with assms(2) have i: "i \<noteq> 0" "i \<notin> set usados" "ids_distintos (i # usados) xs"
    by simp_all
  from assms(1) Pegar have s': "cadeiras s' = snd (pegar_laco i (cadeiras s))"
    by (auto simp: pegar_cadeira_def split: prod.splits)
  show ?thesis
  proof (cases "fst (pegar_laco i (cadeiras s))")
    case True
    from i(2) assms(4) have "i \<notin> set (ocupantes (cadeiras s))" by blast
    with pegar_laco_ocupantes_set [OF i(1) True]
      pegar_laco_ocupantes_distinct [OF i(1) True] assms(3,4) s'
    have "distinct (ocupantes (cadeiras s'))"
      "set (ocupantes (cadeiras s')) \<subseteq> set (i # usados)"
      by auto
    with i(3) show ?thesis by blast
  next
    case False
    then have "cadeiras s' = cadeiras s"
      using s' by (simp add: pegar_laco_False)
    with assms(3,4) have "distinct (ocupantes (cadeiras s'))"
      "set (ocupantes (cadeiras s')) \<subseteq> set (i # usados)"
      by auto
    with i(3) show ?thesis by blast
  qed
next
  case Esvaziar
  with assms(1) have "ocupantes (cadeiras s') = []"
    by (auto simp: esvaziar_cadeiras_def)
  moreover from assms(2) Esvaziar have "ids_distintos [] xs" by simp
  ultimately show ?thesis by (intro exI [of _ "[]"]) simp
next
  case Remover
  with assms(1) have "cadeiras s' = butlast (cadeiras s)"
    by (auto simp: remover_cadeira_def split: if_splits)
  with ocupantes_butlast [of "cadeiras s"] obtain zs
    where "ocupantes (cadeiras s) = ocupantes (cadeiras s') @ zs" by auto
  with assms(3,4) have "distinct (ocupantes (cadeiras s'))"
    "set (ocupantes (cadeiras s')) \<subseteq> set usados"
    by auto
  moreover from assms(2) Remover have "ids_distintos usados xs" by simp
  ultimately show ?thesis by blast
qed

lemma executa_ops_ocupantes:
  "executa_ops xs s = Some s' \<Longrightarrow> ids_distintos usados xs \<Longrightarrow>
   distinct (ocupantes (cadeiras s)) \<Longrightarrow> set (ocupantes (cadeiras s)) \<subseteq> set usados \<Longrightarrow>
   distinct (ocupantes (cadeiras s'))"
proof (induction xs arbitrary: s usados)
  case Nil
  then show ?case by simp
next
  case (Cons x xs)
  from Cons.prems(1) obtain s1 where s1: "aplica x s = Some s1" "executa_ops xs s1 = Some s'"
    by (auto split: option.splits)
  from aplica_ocupantes [OF s1(1) Cons.prems(2,3,4)] obtain usados'
    where "ids_distintos usados' xs" "distinct (ocupantes (cadeiras s1))"
      "set (ocupantes (cadeiras s1)) \<subseteq> set usados'"
    by blast
  with Cons.IH [OF s1(2)] show ?case by blast
qed

lemma ids_distintos_take: "ids_distintos usados xs \<Longrightarrow> ids_distintos usados (take k xs)"
proof (induction usados xs arbitrary: k rule: ids_distintos.induct)
  case (1 usados)
  then show ?case by simp
next
  case (2 usados i xs)
  then show ?case by (cases k) simp_all
next
  case (3 usados xs)
  then show ?case by (cases k) simp_all
next
  case (4 usados xs)
  then show ?case by (cases k) simp_all
qed

text \<open>
  Claim C2. Start from the seats the constructor makes (all free) and apply any
  sequence of \<open>pegar_cadeira\<close>, \<open>esvaziar_cadeiras\<close> and \<open>remover_cadeira\<close> in which the ids
  claimed between two clears are nonzero and pairwise distinct. After each operation (every
  prefix of the sequence that runs without a \<open>pop_back\<close> on an empty vector) no id sits
  on two seats, every seat holds a single id, and the number of occupied seats lies
  between 0 and the current number of seats.
\<close>

theorem occupancy_invariant:
  assumes "ids_distintos [] ops"
    and "executa_ops (take k ops) (novo_JogoDasCadeiras n) = Some s"
  shows "distinct (ocupantes (cadeiras s)) \<and>
         0 \<le> int (length (ocupantes (cadeiras s))) \<and>
         length (ocupantes (cadeiras s)) \<le> length (cadeiras s) \<and>
         length (ocupantes (cadeiras s)) + livres (cadeiras s) = length (cadeiras s)"
proof -
  have "distinct (ocupantes (cadeiras s))"
    using executa_ops_ocupantes [OF assms(2) ids_distintos_take [OF assms(1)]]
    by (simp add: cadeiras_novo)
  moreover have "length (ocupantes (cadeiras s)) \<le> length (cadeiras s)"
    using ocupantes_livres [of "cadeiras s"] by linarith
  ultimately show ?thesis
    by (simp add: ocupantes_livres)
qed

theorem occupancy_invariant_witness:
  "ids_distintos [] [Pegar 1, Pegar 2, Esvaziar, Pegar 2, Remover, Pegar 3, Pegar 1] \<and>
   executa_ops (take 6 [Pegar 1, Pegar 2, Esvaziar, Pegar 2, Remover, Pegar 3, Pegar 1])
       (novo_JogoDasCadeiras 4) =
     Some \<lparr>num_jogadores = 4, cadeiras = [\<lparr>id_jogador = 2\<rparr>, \<lparr>id_jogador = 3\<rparr>],
           jogadores_eliminados = []\<rparr> \<and>
   distinct (ocupantes [\<lparr>id_jogador = 2\<rparr>, \<lparr>id_jogador = 3\<rparr>]) \<and>
   length (ocupantes [\<lparr>id_jogador = 2\<rparr>, \<lparr>id_jogador = 3\<rparr>]) \<le> 2"
proof -
  have h1: "ids_distintos [] [Pegar 1, Pegar 2, Esvaziar, Pegar 2, Remover, Pegar 3, Pegar 1]"
    by simp
  have h2: "executa_ops (take 6 [Pegar 1, Pegar 2, Esvaziar, Pegar 2, Remover, Pegar 3, Pegar 1])
       (novo_JogoDasCadeiras 4) =
     Some \<lparr>num_jogadores = 4, cadeiras = [\<lparr>id_jogador = 2\<rparr>, \<lparr>id_jogador = 3\<rparr>],
           jogadores_eliminados = []\<rparr>"
    by (simp add: novo_JogoDasCadeiras_def construtor_laco_replicate nova_Cadeira_def
        pegar_cadeira_def esvaziar_cadeiras_def remover_cadeira_def pegar_laco.simps(2)
        get_id_jogador_def set_id_jogador_def numeral_eq_Suc)
  from occupancy_invariant [OF h1 h2] h1 h2 show ?thesis by simp
qed

section \<open>Properties of the runs\<close>

subsection \<open>Running the program\<close>

text \<open>The equations that evaluate a run on concrete events.\<close>

lemmas avalia = inicial_def novo_JogoDasCadeiras_def construtor_laco_replicate nova_Cadeira_def
  NUM_JOGADORES_def INT_MIN_def passo_coordenador_def passo_jogador_def
  parar_musica_def comecar_musica_def liberar_threads_eliminadas_def
  sonda_def devolve_def sem_acquire_def sem_try_acquire_def sem_release_def
  pegar_cadeira_def pegar_laco.simps(2) get_id_jogador_def set_id_jogador_def
  esvaziar_cadeiras_def remover_cadeira_def eliminar_jogador_def add_jogador_eliminado_def
  exibir_estado_def get_num_jogadores_def get_id_vencedor_def observa_def
  partida_def corrida_def rodada_eventos_def rodada_atrasada_def rodada_de_tres_def
  rodada_sem_sentar_def rodada_sem_acordar_def numeral_eq_Suc upto.simps

subsection \<open>Every step keeps what the coordinator relies on\<close>

lemma pegar_cadeira_campos [simp]:
  "num_jogadores (snd (pegar_cadeira i g)) = num_jogadores g"
  "jogadores_eliminados (snd (pegar_cadeira i g)) = jogadores_eliminados g"
  "length (cadeiras (snd (pegar_cadeira i g))) = length (cadeiras g)"
  using pegar_laco_length [of i "cadeiras g"]
  by (cases "pegar_laco i (cadeiras g)"; simp add: pegar_cadeira_def)+

lemma inv_sem_inicial: "inv_sem inicial"
  by (simp add: inv_sem_def inicial_def construtor_laco_replicate novo_JogoDasCadeiras_def
      NUM_JOGADORES_def)

lemma sem_CTopo:
  assumes "inv_sem c" "coordenador c = CTopo" "passo_coordenador False c = Some c'"
  shows "inv_sem c'"
  using assms
  by (auto simp: inv_sem_def passo_coordenador_def sonda_def devolve_def
        liberar_threads_eliminadas_def sem_try_acquire_def sem_release_def parar_musica_def
        comecar_musica_def eliminar_jogador_def remover_cadeira_def esvaziar_cadeiras_def
        get_num_jogadores_def get_id_vencedor_def NUM_JOGADORES_def
        split: option.splits if_splits list.splits)

lemma sem_CIniciar:
  assumes "inv_sem c" "coordenador c = CIniciar" "passo_coordenador False c = Some c'"
  shows "inv_sem c'"
  using assms
  by (auto simp: inv_sem_def passo_coordenador_def sonda_def devolve_def
        liberar_threads_eliminadas_def sem_try_acquire_def sem_release_def parar_musica_def
        comecar_musica_def eliminar_jogador_def remover_cadeira_def esvaziar_cadeiras_def
        get_num_jogadores_def get_id_vencedor_def NUM_JOGADORES_def
        split: option.splits if_splits list.splits)

lemma sem_CRemover:
  assumes "inv_sem c" "coordenador c = CRemover" "passo_coordenador False c = Some c'"
  shows "inv_sem c'"
  using assms
  by (auto simp: inv_sem_def passo_coordenador_def sonda_def devolve_def
        liberar_threads_eliminadas_def sem_try_acquire_def sem_release_def parar_musica_def
        comecar_musica_def eliminar_jogador_def remover_cadeira_def esvaziar_cadeiras_def
        get_num_jogadores_def get_id_vencedor_def NUM_JOGADORES_def
        split: option.splits if_splits list.splits)

lemma sem_CRessinc:
  assumes "inv_sem c" "coordenador c = CRessinc" "passo_coordenador False c = Some c'"
  shows "inv_sem c'"
  using assms
  by (auto simp: inv_sem_def passo_coordenador_def sonda_def devolve_def
        liberar_threads_eliminadas_def sem_try_acquire_def sem_release_def parar_musica_def
        comecar_musica_def eliminar_jogador_def remover_cadeira_def esvaziar_cadeiras_def
        get_num_jogadores_def get_id_vencedor_def NUM_JOGADORES_def
        split: option.splits if_splits list.splits)

lemma sem_CParar:
  assumes "inv_sem c" "coordenador c = CParar" "passo_coordenador False c = Some c'"
  shows "inv_sem c'"
  using assms
  by (auto simp: inv_sem_def passo_coordenador_def sonda_def devolve_def
        liberar_threads_eliminadas_def sem_try_acquire_def sem_release_def parar_musica_def
        comecar_musica_def eliminar_jogador_def remover_cadeira_def esvaziar_cadeiras_def
        get_num_jogadores_def get_id_vencedor_def NUM_JOGADORES_def
        split: option.splits if_splits list.splits)

lemma sem_CSonda1:
  assumes "inv_sem c" "coordenador c = CSonda1" "passo_coordenador False c = Some c'"
  shows "inv_sem c'"
  using assms
  by (auto simp: inv_sem_def passo_coordenador_def sonda_def devolve_def
        liberar_threads_eliminadas_def sem_try_acquire_def sem_release_def parar_musica_def
        comecar_musica_def eliminar_jogador_def remover_cadeira_def esvaziar_cadeiras_def
        get_num_jogadores_def get_id_vencedor_def NUM_JOGADORES_def
        split: option.splits if_splits list.splits)

lemma sem_CDevolve1:
  assumes "inv_sem c" "coordenador c = CDevolve1" "passo_coordenador False c = Some c'"
  shows "inv_sem c'"
  using assms
  by (auto simp: inv_sem_def passo_coordenador_def sonda_def devolve_def
        liberar_threads_eliminadas_def sem_try_acquire_def sem_release_def parar_musica_def
        comecar_musica_def eliminar_jogador_def remover_cadeira_def esvaziar_cadeiras_def
        get_num_jogadores_def get_id_vencedor_def NUM_JOGADORES_def
        split: option.splits if_splits list.splits)

lemma sem_CEliminar:
  assumes "inv_sem c" "coordenador c = CEliminar" "passo_coordenador False c = Some c'"
  shows "inv_sem c'"
  using assms
  by (auto simp: inv_sem_def passo_coordenador_def sonda_def devolve_def
        liberar_threads_eliminadas_def sem_try_acquire_def sem_release_def parar_musica_def
        comecar_musica_def eliminar_jogador_def remover_cadeira_def esvaziar_cadeiras_def
        get_num_jogadores_def get_id_vencedor_def NUM_JOGADORES_def
        split: option.splits if_splits list.splits)

lemma sem_CLiberar:
  assumes "inv_sem c" "coordenador c = CLiberar" "passo_coordenador False c = Some c'"
  shows "inv_sem c'"
  using assms
  by (auto simp: inv_sem_def passo_coordenador_def sonda_def devolve_def
        liberar_threads_eliminadas_def sem_try_acquire_def sem_release_def parar_musica_def
        comecar_musica_def eliminar_jogador_def remover_cadeira_def esvaziar_cadeiras_def
        get_num_jogadores_def get_id_vencedor_def NUM_JOGADORES_def
        split: option.splits if_splits list.splits)

lemma sem_CSonda2:
  assumes "inv_sem c" "coordenador c = CSonda2" "passo_coordenador False c = Some c'"
  shows "inv_sem c'"
  using assms
  by (auto simp: inv_sem_def passo_coordenador_def sonda_def devolve_def
        liberar_threads_eliminadas_def sem_try_acquire_def sem_release_def parar_musica_def
        comecar_musica_def eliminar_jogador_def remover_cadeira_def esvaziar_cadeiras_def
        get_num_jogadores_def get_id_vencedor_def NUM_JOGADORES_def
        split: option.splits if_splits list.splits)

lemma sem_CDevolve2:
  assumes "inv_sem c" "coordenador c = CDevolve2" "passo_coordenador False c = Some c'"
  shows "inv_sem c'"
  using assms
  by (auto simp: inv_sem_def passo_coordenador_def sonda_def devolve_def
        liberar_threads_eliminadas_def sem_try_acquire_def sem_release_def parar_musica_def
        comecar_musica_def eliminar_jogador_def remover_cadeira_def esvaziar_cadeiras_def
        get_num_jogadores_def get_id_vencedor_def NUM_JOGADORES_def
        split: option.splits if_splits list.splits)

lemma sem_CExibir:
  assumes "inv_sem c" "coordenador c = CExibir" "passo_coordenador False c = Some c'"
  shows "inv_sem c'"
  using assms
  by (auto simp: inv_sem_def passo_coordenador_def sonda_def devolve_def
        liberar_threads_eliminadas_def sem_try_acquire_def sem_release_def parar_musica_def
        comecar_musica_def eliminar_jogador_def remover_cadeira_def esvaziar_cadeiras_def
        get_num_jogadores_def get_id_vencedor_def NUM_JOGADORES_def
        split: option.splits if_splits list.splits)

lemma sem_CVerifica:
  assumes "inv_sem c" "coordenador c = CVerifica" "passo_coordenador False c = Some c'"
  shows "inv_sem c'"
  using assms
  by (auto simp: inv_sem_def passo_coordenador_def sonda_def devolve_def
        liberar_threads_eliminadas_def sem_try_acquire_def sem_release_def parar_musica_def
        comecar_musica_def eliminar_jogador_def remover_cadeira_def esvaziar_cadeiras_def
        get_num_jogadores_def get_id_vencedor_def NUM_JOGADORES_def
        split: option.splits if_splits list.splits)

lemma sem_CVencedor:
  assumes "inv_sem c" "coordenador c = CVencedor" "passo_coordenador False c = Some c'"
  shows "inv_sem c'"
  using assms
  by (auto simp: inv_sem_def passo_coordenador_def sonda_def devolve_def
        liberar_threads_eliminadas_def sem_try_acquire_def sem_release_def parar_musica_def
        comecar_musica_def eliminar_jogador_def remover_cadeira_def esvaziar_cadeiras_def
        get_num_jogadores_def get_id_vencedor_def NUM_JOGADORES_def
        split: option.splits if_splits list.splits)

lemma sem_CComecar:
  assumes "inv_sem c" "coordenador c = CComecar" "passo_coordenador False c = Some c'"
  shows "inv_sem c'"
  using assms
  by (auto simp: inv_sem_def passo_coordenador_def sonda_def devolve_def
        liberar_threads_eliminadas_def sem_try_acquire_def sem_release_def parar_musica_def
        comecar_musica_def eliminar_jogador_def remover_cadeira_def esvaziar_cadeiras_def
        get_num_jogadores_def get_id_vencedor_def NUM_JOGADORES_def
        split: option.splits if_splits list.splits)

lemma sem_CFim:
  assumes "inv_sem c" "coordenador c = CFim" "passo_coordenador False c = Some c'"
  shows "inv_sem c'"
  using assms
  by (auto simp: inv_sem_def passo_coordenador_def sonda_def devolve_def
        liberar_threads_eliminadas_def sem_try_acquire_def sem_release_def parar_musica_def
        comecar_musica_def eliminar_jogador_def remover_cadeira_def esvaziar_cadeiras_def
        get_num_jogadores_def get_id_vencedor_def NUM_JOGADORES_def
        split: option.splits if_splits list.splits)

lemma inv_sem_coordenador:
  assumes "inv_sem c" "passo_coordenador False c = Some c'"
  shows "inv_sem c'"
  using assms
  by (cases "coordenador c")
     (rule sem_CTopo sem_CIniciar sem_CRemover sem_CRessinc sem_CParar sem_CSonda1
        sem_CDevolve1 sem_CEliminar sem_CLiberar sem_CSonda2 sem_CDevolve2 sem_CExibir
        sem_CVerifica sem_CVencedor sem_CComecar sem_CFim;
      assumption)+

lemma inv_sem_jogador:
  assumes "inv_sem c"
  shows "inv_sem (passo_jogador i c)"
proof (cases "jogador c i")
  case ComPermissao
  obtain r g where p: "pegar_cadeira i (jogo c) = (r, g)" by (cases "pegar_cadeira i (jogo c)")
  then have "g = snd (pegar_cadeira i (jogo c))" by simp
  then have "num_jogadores g = num_jogadores (jogo c)"
    "length (cadeiras g) = length (cadeiras (jogo c))" by simp_all
  with assms ComPermissao p show ?thesis
    by (simp add: inv_sem_def passo_jogador_def)
next
  case Correndo
  with assms show ?thesis
    by (cases "coordenador c")
       (auto simp: inv_sem_def passo_jogador_def sem_acquire_def split: if_splits)
qed (use assms in \<open>auto simp: inv_sem_def passo_jogador_def add_jogador_eliminado_def\<close>)

lemma inv_sem_passo:
  assumes "inv_sem c" "passo e c = Some c'" "e \<noteq> Coord_espurio"
  shows "inv_sem c'"
  using assms by (cases e) (auto simp: inv_sem_coordenador inv_sem_jogador)

lemma inv_sem_executa:
  assumes "inv_sem c" "executa es c = Some c'" "Coord_espurio \<notin> set es"
  shows "inv_sem c'"
  using assms
proof (induction es arbitrary: c)
  case Nil
  then show ?case by simp
next
  case (Cons e es)
  from Cons.prems(2) obtain d where d: "passo e c = Some d" "executa es d = Some c'"
    by (auto split: option.splits)
  from Cons.prems(3) have "e \<noteq> Coord_espurio" "Coord_espurio \<notin> set es" by auto
  with Cons.IH [of d] inv_sem_passo [OF Cons.prems(1) d(1)] d(2) show ?case by simp
qed

subsection \<open>The phases of the music\<close>



lemma passo_jogador_campos [simp]:
  "musica_parada (passo_jogador i c) = musica_parada c"
  "jogo_ativo (passo_jogador i c) = jogo_ativo c"
  "coordenador (passo_jogador i c) = coordenador c"
  "vencedor (passo_jogador i c) = vencedor c"
  by (cases "jogador c i"; simp add: passo_jogador_def split: option.splits prod.splits)+









subsection \<open>The semaphore\<close>

lemma inv_sem_limites:
  assumes "inv_sem c"
  shows "0 \<le> cadeira_sem c" "cadeira_sem c \<le> int (length (cadeiras (jogo c)))"
  using assms by (simp_all add: inv_sem_def)

lemma inv_sem_release:
  assumes "inv_sem c"
    "coordenador c = CDevolve1 \<or> coordenador c = CLiberar \<or> coordenador c = CDevolve2"
  shows "cadeira_sem c + 1 \<le> int (length (cadeiras (jogo c)))"
  using assms by (auto simp: inv_sem_def)

lemma inv_sem_definido:
  assumes "inv_sem c" "passo_coordenador False c = None"
  shows "coordenador c = CExibir"
  using assms
  by (cases "coordenador c")
     (auto simp: inv_sem_def passo_coordenador_def devolve_def
        liberar_threads_eliminadas_def sem_release_def eliminar_jogador_def
        remover_cadeira_def esvaziar_cadeiras_def get_id_vencedor_def NUM_JOGADORES_def
        INT_MIN_def split: option.splits if_splits list.splits)

lemma inv_sem_ressinc:
  assumes "inv_sem c" "coordenador c = CRessinc"
  shows "\<exists>c'. passo_coordenador False c = Some c' \<and>
           cadeira_sem c' = num_jogadores (jogo c') - 1 \<and>
           int (length (cadeiras (jogo c'))) = num_jogadores (jogo c') - 1"
  using assms
  by (auto simp: inv_sem_def passo_coordenador_def sem_release_def NUM_JOGADORES_def)

text \<open>
  Claim C6. Take any interleaving of the threads' statements in which \<open>try_acquire\<close>
  fails only when no permit is left, up to any point that the program reaches without
  undefined behaviour. There the permits of \<open>cadeira_sem\<close> are between 0 and the number
  of seats of the round; before each \<open>release()\<close> (in the two polling loops and in
  \<open>liberar_threads_eliminadas\<close>) there is room for one more permit below the number of
  seats; no \<open>release\<close> is undefined (the only statement of the coordinator that can be
  undefined is \<open>exibir_estado\<close>); and right after the \<open>release(num_jogadores_ - 1)\<close> of
  \<open>iniciar_rodada\<close> the permits are exactly the seats, \<open>num_jogadores_ - 1\<close>.
\<close>

theorem cadeira_sem_within_capacity:
  assumes "executa es inicial = Some c" "Coord_espurio \<notin> set es"
  shows "0 \<le> cadeira_sem c \<and> cadeira_sem c \<le> int (length (cadeiras (jogo c))) \<and>
         (coordenador c = CDevolve1 \<or> coordenador c = CLiberar \<or> coordenador c = CDevolve2 \<longrightarrow>
            cadeira_sem c + 1 \<le> int (length (cadeiras (jogo c)))) \<and>
         (passo Coord c = None \<longrightarrow> coordenador c = CExibir) \<and>
         (coordenador c = CRessinc \<longrightarrow>
            (\<exists>c'. passo Coord c = Some c' \<and>
               cadeira_sem c' = num_jogadores (jogo c') - 1 \<and>
               int (length (cadeiras (jogo c'))) = num_jogadores (jogo c') - 1))"
proof -
  from inv_sem_executa [OF inv_sem_inicial assms] have i: "inv_sem c" .
  from inv_sem_limites [OF i] inv_sem_release [OF i] inv_sem_definido [OF i]
    inv_sem_ressinc [OF i]
  show ?thesis by simp
qed

theorem cadeira_sem_within_capacity_witness:
  "Coord_espurio \<notin> set (rodada_eventos [1, 2, 3] 4 @ [Coord, Coord, Coord]) \<and>
   observa (executa (rodada_eventos [1, 2, 3] 4 @ [Coord, Coord, Coord]) inicial) =
     Some (3, [0, 0], [4], 0, False, True, CRessinc,
           [Topo, Topo, Topo, Eliminado], None) \<and>
   observa (executa (rodada_eventos [1, 2, 3] 4 @ [Coord, Coord, Coord, Coord]) inicial) =
     Some (3, [0, 0], [4], 2, False, True, CParar,
           [Topo, Topo, Topo, Eliminado], None)"
proof -
  have h: "executa (rodada_eventos [1, 2, 3] 4 @ [Coord, Coord, Coord]) inicial =
      Some \<lparr>jogo = \<lparr>num_jogadores = 3,
                     cadeiras = [\<lparr>id_jogador = 0\<rparr>, \<lparr>id_jogador = 0\<rparr>],
                     jogadores_eliminados = [4]\<rparr>,
            cadeira_sem = 0, musica_parada = False, jogo_ativo = True,
            coordenador = CRessinc,
            jogador = (\<lambda>i. if i = 4 then Eliminado else Topo),
            vencedor = None\<rparr>"
    by (simp add: avalia fun_eq_iff)
  have n: "Coord_espurio \<notin> set (rodada_eventos [1, 2, 3] 4 @ [Coord, Coord, Coord])"
    by (simp add: avalia)
  from cadeira_sem_within_capacity [OF h n] n show ?thesis
    by (simp add: avalia)
qed

text \<open>
  The hypothesis on \<open>try_acquire\<close> is needed. The C++ standard lets \<open>try_acquire\<close> fail
  although permits are left; if the first probe of the first round does, the coordinator
  goes on to \<open>liberar_threads_eliminadas\<close> with all three permits still there, and the
  semaphore then holds four permits for three seats.
\<close>

lemma try_acquire_espurio:
  "observa (executa [Coord, Coord, Coord, Coord_espurio, Coord, Coord] inicial) =
     Some (3, [0, 0, 0], [], 4, True, True, CSonda2, [Topo, Topo, Topo, Topo], None)"
  by (simp add: avalia)

subsection \<open>The end of the game\<close>






subsection \<open>Rounds in which a player is slow\<close>

text \<open>
  Claim C3: every round appends exactly one id to the log of eliminated players and
  lowers \<open>num_jogadores_\<close> by one, so that \<open>num_jogadores_\<close> is \<open>NUM_JOGADORES\<close> minus
  the length of the log after every round. The program does not keep this. The second
  polling loop of \<open>iniciar_jogo\<close> (\<open>Aguarda o jogador ser eliminado\<close>) ends as soon as
  the loser has taken its permit, not when it has called \<open>add_jogador_eliminado\<close>. In
  the run below round 1 is played in order; in round 2 players 1 and 2 sit and player 3
  is preempted right after \<open>cadeira_sem.acquire()\<close>: the coordinator finishes the round
  with \<open>num_jogadores_\<close> at 2 and the log still \<open>[4]\<close>. In round 3 player 3 takes the
  seat that \<open>iniciar_rodada\<close> has just cleared, players 1 and 2 both lose, and the round
  appends two ids.
\<close>

theorem round_without_elimination:
  "observa (executa (rodada_eventos [1, 2, 3] 4) inicial) =
     Some (3, [1, 2, 3], [4], 0, False, True, CTopo,
           [Topo, Topo, Topo, Eliminado], None) \<and>
   observa (executa (rodada_eventos [1, 2, 3] 4 @ rodada_atrasada) inicial) =
     Some (2, [1, 2], [4], 0, False, True, CTopo,
           [Topo, Topo, ComPermissao, Eliminado], None) \<and>
   observa (executa (rodada_eventos [1, 2, 3] 4 @ rodada_atrasada @ rodada_de_tres) inicial) =
     Some (1, [3], [4, 1, 2], 0, False, False, CFim,
           [Eliminado, Eliminado, Correndo, Eliminado], Some 3)"
  by (simp add: avalia)

text \<open>
  Claim C4: a game of four has three seats for four players in round 1, two seats for
  three players in round 2 and one seat for two players in round 3, and it ends exactly
  when one player remains. The program does not keep this. After the round 2 of the run
  above, round 3 opens with one seat and \<open>num_jogadores_\<close> at 2 while three player
  threads are still in the game, and all three race for the seat. And when a player that
  sat in round 2 does not wake before the music stops again (the coordinator's sleep can
  be 0 ms), round 3 has one racer: it sits, \<open>num_jogadores_\<close> drops to 1, nobody takes
  the loser's permit, and the coordinator stays in its second polling loop with
  \<open>jogo_ativo\<close> true, whichever thread runs next.
\<close>

theorem third_round_with_three_racers:
  "observa (executa (rodada_eventos [1, 2, 3] 4 @ rodada_atrasada @
                     [Coord, Coord, Coord, Coord]) inicial) =
     Some (2, [0], [4], 1, False, True, CParar,
           [Topo, Topo, ComPermissao, Eliminado], None) \<and>
   observa (executa (rodada_eventos [1, 2, 3] 4 @ rodada_atrasada @
                     [Coord, Coord, Coord, Coord, Coord, Jog 1, Jog 1, Jog 2, Jog 2]) inicial) =
     Some (2, [0], [4], 1, True, True, CSonda1,
           [Correndo, Correndo, ComPermissao, Eliminado], None) \<and>
   observa (executa rodada_sem_acordar inicial) =
     Some (1, [3], [4, 2], 1, True, True, CSonda2,
           [EsperaMusica, Eliminado, EsperaMusica, Eliminado], None) \<and>
   observa (executa (rodada_sem_acordar @ [Coord]) inicial) =
     Some (1, [3], [4, 2], 0, True, True, CDevolve2,
           [EsperaMusica, Eliminado, EsperaMusica, Eliminado], None) \<and>
   executa (rodada_sem_acordar @ [Coord, Coord]) inicial = executa rodada_sem_acordar inicial \<and>
   executa (rodada_sem_acordar @ [Jog 1]) inicial = executa rodada_sem_acordar inicial \<and>
   executa (rodada_sem_acordar @ [Jog 2]) inicial = executa rodada_sem_acordar inicial \<and>
   executa (rodada_sem_acordar @ [Jog 3]) inicial = executa rodada_sem_acordar inicial \<and>
   executa (rodada_sem_acordar @ [Jog 4]) inicial = executa rodada_sem_acordar inicial \<and>
   executa (rodada_sem_acordar @ [Coord, Jog 1]) inicial =
     executa (rodada_sem_acordar @ [Coord]) inicial \<and>
   executa (rodada_sem_acordar @ [Coord, Jog 2]) inicial =
     executa (rodada_sem_acordar @ [Coord]) inicial \<and>
   executa (rodada_sem_acordar @ [Coord, Jog 3]) inicial =
     executa (rodada_sem_acordar @ [Coord]) inicial \<and>
   executa (rodada_sem_acordar @ [Coord, Jog 4]) inicial =
     executa (rodada_sem_acordar @ [Coord]) inicial"
  by (simp add: avalia)

text \<open>
  Claim C5: when \<open>num_jogadores_\<close> is 1 the seat list has one seat and
  \<open>get_id_vencedor\<close> returns the id of the player that occupies it. The program does
  not keep this. The first polling loop (\<open>Aguarda os jogadores se sentarem\<close>) ends as
  soon as the permits are taken, not when the players have called \<open>pegar_cadeira\<close>. In
  the run below rounds 1 and 2 are played in order; in round 3 player 3 takes the permit
  and is preempted before \<open>music_mutex.lock()\<close>, the coordinator releases the loser's
  permit, player 1 takes it and is preempted as well: the coordinator makes its check
  with \<open>num_jogadores_\<close> at 1 and the one seat free, and the winner it prints is 0.
\<close>

theorem winner_of_free_seat:
  "observa (executa (rodada_eventos [1, 2, 3] 4 @ rodada_eventos [3, 1] 2 @
                     take 16 rodada_sem_sentar) inicial) =
     Some (1, [0], [4, 2], 0, True, True, CVerifica,
           [ComPermissao, Eliminado, ComPermissao, Eliminado], None) \<and>
   observa (executa (rodada_eventos [1, 2, 3] 4 @ rodada_eventos [3, 1] 2 @
                     take 17 rodada_sem_sentar) inicial) =
     Some (1, [0], [4, 2], 0, True, False, CVencedor,
           [ComPermissao, Eliminado, ComPermissao, Eliminado], None) \<and>
   observa (executa (rodada_eventos [1, 2, 3] 4 @ rodada_eventos [3, 1] 2 @
                     rodada_sem_sentar) inicial) =
     Some (1, [0], [4, 2], 0, True, False, CComecar,
           [ComPermissao, Eliminado, ComPermissao, Eliminado], Some 0)"
  by (simp add: avalia)

subsection \<open>Calls outside the lock\<close>

lemma sem_mutex_replicate_Wait [simp]:
  "sem_mutex h (replicate k Wait @ xs) = sem_mutex h xs"
  by (induction k) simp_all

lemma sem_mutex_sondagem [simp]:
  "sem_mutex h (sondagem k @ xs) = sem_mutex h xs"
  by (induction k) (simp_all add: sondagem_def)

text \<open>
  Claim C8. \<open>pegar_cadeira\<close> is called with \<open>music_mutex\<close> held, but
  \<open>add_jogador_eliminado\<close>, three statements later in the same thread, is called without
  it and takes no lock itself; the coordinator calls its methods without the lock as
  well and relies on its polling. The polling does not order the loser's \<open>push_back\<close>
  before the coordinator's read: in round 1, once the fourth player has taken its permit
  (line 188) and before it does anything else, the coordinator's probe fails and
  \<open>exibir_estado\<close> reads \<open>back()\<close> of the empty log.
\<close>

theorem add_jogador_eliminado_outside_lock:
  "sem_mutex False tentar_ocupar_cadeira_instrucoes = [] \<and>
   sem_mutex False (joga_instrucoes k1 k2 True) = [] \<and>
   sem_mutex False (joga_instrucoes k1 k2 False) = [Add_jogador_eliminado] \<and>
   sem_mutex False (iniciar_jogo_instrucoes k1 k2 True) =
     [Iniciar_rodada, Eliminar_jogador, Exibir_estado, Get_num_jogadores, Get_id_vencedor] \<and>
   observa (executa (take 23 partida) inicial) =
     Some (3, [1, 2, 3], [], 0, True, True, CSonda2,
           [EsperaMusica, EsperaMusica, EsperaMusica, ComPermissao], None) \<and>
   observa (executa (take 23 partida @ [Coord]) inicial) =
     Some (3, [1, 2, 3], [], 0, True, True, CExibir,
           [EsperaMusica, EsperaMusica, EsperaMusica, ComPermissao], None) \<and>
   executa (take 23 partida @ [Coord, Coord]) inicial = None"
proof -
  have "sem_mutex False (iniciar_jogo_instrucoes k1 k2 True) =
     [Iniciar_rodada, Eliminar_jogador, Exibir_estado, Get_num_jogadores, Get_id_vencedor]"
    by (simp add: iniciar_jogo_instrucoes_def)
  then show ?thesis
    by (simp add: avalia tentar_ocupar_cadeira_instrucoes_def joga_instrucoes_def)
qed

end
